theory Spec2Isabelle
  imports Main
begin

section \<open>Data model\<close>

text \<open>
  The views of \<^verbatim>\<open>events/views.py\<close> work on four tables through Django's ORM. The module
  \<^verbatim>\<open>models.py\<close> that declares them is not among the sources, so the rows below carry the
  fields that the views and the data model of the specification name. A user is identified
  by the primary key of its row: Django compares model instances by primary key.
\<close>

type_synonym user = nat

text \<open>
  Modelled from the spec: the Event model (\<^verbatim>\<open>models.py\<close> is missing). Timestamps are integers
  (a number of clock ticks); \<open>tags\<close> and \<open>organizers\<close>, which no view inspects, are left out.
\<close>

record event =
  pk :: nat
  slug :: string
  title :: string
  description :: string
  event_date :: int
  hosted_by :: user
  total_guest :: int
  read_time :: int

text \<open>
  Modelled from the spec: the Session model and its status, "enumerated: Draft | Accepted |
  Denied". The views compare the stored value with the string literals that
  \<open>status_value\<close> gives. \<open>session_events\<close> is the foreign key \<^verbatim>\<open>events\<close>: the primary key of
  the parent event.
\<close>

datatype session_status = Draft | Accepted | Denied

fun status_value :: "session_status \<Rightarrow> string" where
  "status_value Draft = ''Draft''"
| "status_value Accepted = ''Accepted''"
| "status_value Denied = ''Denied''"

record session =
  session_pk :: nat
  session_slug :: string
  session_title :: string
  session_description :: string
  status :: session_status
  session_type :: string
  proposed_by :: user
  session_events :: nat

text \<open>
  Modelled from the spec: the Attendee model, a link row (user, events); \<open>attendee_events\<close> is
  the primary key of the event signed up to.
\<close>

record attendee =
  attendee_user :: user
  attendee_events :: nat

record db =
  Event_objects :: "event list"
  Session_objects :: "session list"
  Attendee_objects :: "attendee list"

section \<open>Requests, responses and exceptions\<close>

text \<open>
  The request methods that the views of this module have handlers of their own for (HEAD
  and OPTIONS, which the framework answers for every view, are left out). \<open>user\<close> is
  \<^verbatim>\<open>request.user\<close>: \<open>None\<close> stands for the anonymous user, \<open>Some u\<close> for an authenticated one.
\<close>

datatype http_method = GET | POST | PUT | PATCH | DELETE

datatype json = JNull | JBool bool | JInt int | JStr string

type_synonym dict = "string \<rightharpoonup> json"

text \<open>
  \<open>data\<close> is the parsed body \<^verbatim>\<open>request.data\<close>. The keyword arguments that the URL resolver
  hands to a view (\<^verbatim>\<open>urls.py\<close> is not among the sources) are a dictionary of their own.
\<close>

record request =
  request_method :: http_method
  user :: "user option"
  data :: dict

type_synonym kwargs = "string \<rightharpoonup> string"

definition is_authenticated :: "user option \<Rightarrow> bool" where
  "is_authenticated u = (u \<noteq> None)"

datatype body = NoBody | Object dict | Array "dict list"

record response =
  response_status :: nat
  response_data :: body

abbreviation HTTP_200_OK :: nat where "HTTP_200_OK \<equiv> 200"
abbreviation HTTP_201_CREATED :: nat where "HTTP_201_CREATED \<equiv> 201"
abbreviation HTTP_204_NO_CONTENT :: nat where "HTTP_204_NO_CONTENT \<equiv> 204"
abbreviation HTTP_400_BAD_REQUEST :: nat where "HTTP_400_BAD_REQUEST \<equiv> 400"
abbreviation HTTP_401_UNAUTHORIZED :: nat where "HTTP_401_UNAUTHORIZED \<equiv> 401"
abbreviation HTTP_403_FORBIDDEN :: nat where "HTTP_403_FORBIDDEN \<equiv> 403"
abbreviation HTTP_404_NOT_FOUND :: nat where "HTTP_404_NOT_FOUND \<equiv> 404"
abbreviation HTTP_405_METHOD_NOT_ALLOWED :: nat where "HTTP_405_METHOD_NOT_ALLOWED \<equiv> 405"
abbreviation HTTP_500_INTERNAL_SERVER_ERROR :: nat where "HTTP_500_INTERNAL_SERVER_ERROR \<equiv> 500"

text \<open>
  The exceptions a view can end with. \<open>DoesNotExist\<close> and \<open>MultipleObjectsReturned\<close> are the
  ORM's, \<open>Http404\<close> is Django's, the others are the classes of \<^verbatim>\<open>rest_framework.exceptions\<close>.
  \<open>APIException detail code\<close> is the base class built as the views build it,
  \<^verbatim>\<open>APIException(detail, code=...)\<close>.
\<close>

datatype exc =
    DoesNotExist
  | MultipleObjectsReturned
  | Http404
  | NotFound
  | PermissionDenied
  | NotAuthenticated
  | MethodNotAllowed
  | ValidationError
  | AssertionError
  | APIException string nat

text \<open>
  The status of the response that the framework's exception handler builds: the class
  attribute \<^verbatim>\<open>status_code\<close> of the exception. For the base class \<^verbatim>\<open>APIException\<close> it is
  \<^verbatim>\<open>HTTP_500_INTERNAL_SERVER_ERROR\<close>; the constructor's keyword \<^verbatim>\<open>code\<close> is the error code
  kept beside the detail message and does not change the status. \<open>Http404\<close> is answered as
  \<open>NotFound\<close>; an exception that is not an API exception ends as a server error.
\<close>

fun status_code :: "exc \<Rightarrow> nat" where
  "status_code (APIException detail code) = HTTP_500_INTERNAL_SERVER_ERROR"
| "status_code NotFound = HTTP_404_NOT_FOUND"
| "status_code Http404 = HTTP_404_NOT_FOUND"
| "status_code PermissionDenied = HTTP_403_FORBIDDEN"
| "status_code NotAuthenticated = HTTP_401_UNAUTHORIZED"
| "status_code MethodNotAllowed = HTTP_405_METHOD_NOT_ALLOWED"
| "status_code ValidationError = HTTP_400_BAD_REQUEST"
| "status_code AssertionError = HTTP_500_INTERNAL_SERVER_ERROR"
| "status_code DoesNotExist = HTTP_500_INTERNAL_SERVER_ERROR"
| "status_code MultipleObjectsReturned = HTTP_500_INTERNAL_SERVER_ERROR"

text \<open>The status line the client sees: of the response, or of the exception's response.\<close>

fun http_status :: "exc + response \<Rightarrow> nat" where
  "http_status (Inl e) = status_code e"
| "http_status (Inr r) = response_status r"

section \<open>Queries\<close>

text \<open>
  \<^verbatim>\<open>QuerySet.get\<close>: the one row that matches, \<open>DoesNotExist\<close> when none does,
  \<open>MultipleObjectsReturned\<close> when several do.
\<close>

definition qs_get :: "'a list \<Rightarrow> ('a \<Rightarrow> bool) \<Rightarrow> exc + 'a" where
  "qs_get qs p =
     (case filter p qs of
        [] \<Rightarrow> Inl DoesNotExist
      | [x] \<Rightarrow> Inr x
      | x # y # zs \<Rightarrow> Inl MultipleObjectsReturned)"

text \<open>\<^verbatim>\<open>get_object_or_404\<close>: \<open>get\<close>, with \<open>DoesNotExist\<close> turned into \<open>Http404\<close> and nothing else.\<close>

definition get_object_or_404 :: "'a list \<Rightarrow> ('a \<Rightarrow> bool) \<Rightarrow> exc + 'a" where
  "get_object_or_404 qs p =
     (case qs_get qs p of
        Inl e \<Rightarrow> if e = DoesNotExist then Inl Http404 else Inl e
      | Inr x \<Rightarrow> Inr x)"

text \<open>\<^verbatim>\<open>QuerySet.first\<close>: the first row, or nothing.\<close>

fun qs_first :: "'a list \<Rightarrow> 'a option" where
  "qs_first [] = None"
| "qs_first (x # xs) = Some x"

text \<open>The reverse manager \<^verbatim>\<open>event.attendees\<close>: the Attendee rows whose event is this one.\<close>

definition attendees :: "event \<Rightarrow> db \<Rightarrow> attendee list" where
  "attendees e d = filter (\<lambda>a. attendee_events a = pk e) (Attendee_objects d)"

section \<open>Permissions of the framework\<close>

text \<open>
  The framework's safe methods are GET, HEAD and OPTIONS; GET is the one among the methods
  above. \<open>IsAuthenticated\<close> and \<open>IsAuthenticatedOrReadOnly\<close> are view permissions
  (\<^verbatim>\<open>has_permission\<close>); as object permissions they allow everything.
\<close>

definition SAFE_METHODS :: "http_method list" where
  "SAFE_METHODS = [GET]"

definition IsAuthenticated :: "request \<Rightarrow> bool" where
  "IsAuthenticated r = is_authenticated (user r)"

definition IsAuthenticatedOrReadOnly :: "request \<Rightarrow> bool" where
  "IsAuthenticatedOrReadOnly r =
     (request_method r \<in> set SAFE_METHODS \<or> is_authenticated (user r))"

text \<open>
  \<^verbatim>\<open>APIView.permission_denied\<close>: a request that carried no valid credentials is answered with
  \<open>NotAuthenticated\<close>, an authenticated one with \<open>PermissionDenied\<close>.
\<close>

definition permission_denied :: "request \<Rightarrow> exc" where
  "permission_denied r = (if is_authenticated (user r) then PermissionDenied else NotAuthenticated)"

section \<open>Signing up to an event\<close>

text \<open>
  \<^verbatim>\<open>sign_up_to_event\<close> with its decorators: \<^verbatim>\<open>permission_classes([IsAuthenticated])\<close> is checked
  first and refuses the anonymous user (the case \<open>None\<close>), then \<^verbatim>\<open>api_view(["POST"])\<close> refuses
  every other method, then the body runs with \<^verbatim>\<open>request.user\<close> the authenticated user \<open>u\<close>.
  The result is the response or the exception raised, and the database afterwards.
\<close>

definition sign_up_to_event :: "request \<Rightarrow> string \<Rightarrow> db \<Rightarrow> (exc + response) \<times> db" where
  "sign_up_to_event request slug' d =
     (case user request of
        None \<Rightarrow> (Inl (permission_denied request), d)
      | Some u \<Rightarrow>
          if request_method request \<noteq> POST then (Inl MethodNotAllowed, d)
          else
            (case get_object_or_404 (Event_objects d) (\<lambda>e. slug e = slug') of
               Inl e \<Rightarrow> (Inl e, d)
             | Inr event \<Rightarrow>
                 if hosted_by event = u then
                   (Inl (APIException (''You are the owner of the '' @ title event @ ''.'')
                           HTTP_400_BAD_REQUEST), d)
                 else if qs_first (filter (\<lambda>a. attendee_user a = u) (attendees event d)) \<noteq> None then
                   (Inl (APIException (''You already attended the '' @ title event @ ''.'')
                           HTTP_400_BAD_REQUEST), d)
                 else
                   (Inr \<lparr>response_status = HTTP_201_CREATED, response_data = NoBody\<rparr>,
                    d\<lparr>Attendee_objects :=
                        Attendee_objects d @ [\<lparr>attendee_user = u, attendee_events = pk event\<rparr>]\<rparr>)))"

section \<open>Serializers\<close>

text \<open>
  The module \<^verbatim>\<open>serializers.py\<close> is not among the sources, so the serializer classes that the
  views name are parameters. A class used for output is the function from a row to its
  representation. A class used for input is the function from the request data to the row
  that \<^verbatim>\<open>save\<close> writes, or to nothing when \<^verbatim>\<open>is_valid\<close> refuses the data; for an update it
  also takes the \<^verbatim>\<open>partial\<close> flag and the row being changed.
\<close>

record serializers =
  EventRetrieveSerializer :: "event \<Rightarrow> dict"
  EventListSerializer :: "event \<Rightarrow> dict"
  EventCreateUpdateSerializer :: "event \<Rightarrow> dict"
  EventCreateUpdateSerializer_save :: "dict \<Rightarrow> bool \<Rightarrow> event \<Rightarrow> event option"
  SessionRetrieveCreateUpdateSerializer :: "session \<Rightarrow> dict"
  SessionRetrieveCreateUpdateSerializer_create :: "dict \<Rightarrow> session option"
  SessionRetrieveCreateUpdateSerializer_save :: "dict \<Rightarrow> bool \<Rightarrow> session \<Rightarrow> session option"

section \<open>The event list\<close>

text \<open>
  The class attribute \<^verbatim>\<open>queryset\<close> of \<^verbatim>\<open>EventListCreateAPIView\<close>. Its filter value
  \<^verbatim>\<open>timezone.now()\<close> stands in the class body, so the clock is read once, when the module is
  loaded: \<open>loaded\<close> is that reading. A request re-runs the query with the same value.
\<close>

definition EventListCreateAPIView_queryset :: "int \<Rightarrow> db \<Rightarrow> event list" where
  "EventListCreateAPIView_queryset loaded d = filter (\<lambda>e. event_date e > loaded) (Event_objects d)"

text \<open>
  \<^verbatim>\<open>OrderingFilter\<close>. The \<^verbatim>\<open>ordering\<close> query parameter is a list of terms, a field name with
  or without a leading minus sign; \<open>[]\<close> is a request without the parameter. Terms that
  name no field of \<^verbatim>\<open>ordering_fields\<close> are dropped, and when none is left the view's default
  \<^verbatim>\<open>ordering\<close> is used. The rows are ordered by the first term, ties by the next.
\<close>

datatype order_term = Asc string | Desc string

fun term_field :: "order_term \<Rightarrow> string" where
  "term_field (Asc f) = f"
| "term_field (Desc f) = f"

definition remove_invalid_fields :: "(string \<times> ('a \<Rightarrow> int)) list \<Rightarrow> order_term list \<Rightarrow> order_term list" where
  "remove_invalid_fields columns ts = filter (\<lambda>t. map_of columns (term_field t) \<noteq> None) ts"

definition get_ordering ::
  "(string \<times> ('a \<Rightarrow> int)) list \<Rightarrow> order_term list \<Rightarrow> order_term list \<Rightarrow> order_term list" where
  "get_ordering columns dflt params =
     (let ordering = remove_invalid_fields columns params
      in if ordering \<noteq> [] then ordering else dflt)"

fun order_by :: "(string \<times> ('a \<Rightarrow> int)) list \<Rightarrow> order_term list \<Rightarrow> 'a list \<Rightarrow> 'a list" where
  "order_by columns [] xs = xs"
| "order_by columns (Asc f # ts) xs =
     (case map_of columns f of
        None \<Rightarrow> order_by columns ts xs
      | Some k \<Rightarrow> sort_key k (order_by columns ts xs))"
| "order_by columns (Desc f # ts) xs =
     (case map_of columns f of
        None \<Rightarrow> order_by columns ts xs
      | Some k \<Rightarrow> sort_key (\<lambda>x. - k x) (order_by columns ts xs))"

definition EventListCreateAPIView_ordering :: "order_term list" where
  "EventListCreateAPIView_ordering = [Asc ''event_date'']"

definition EventListCreateAPIView_ordering_fields :: "(string \<times> (event \<Rightarrow> int)) list" where
  "EventListCreateAPIView_ordering_fields =
     [(''total_guest'', total_guest), (''event_date'', event_date), (''read_time'', read_time)]"

text \<open>
  The rows that a GET on the list view serializes, for a request with no \<^verbatim>\<open>search\<close>
  parameter and no parameter of \<^verbatim>\<open>filter.EventFilter\<close> (both leave the rows as they are
  then): the class's query set, ordered. The handler reads no clock.
\<close>

definition EventListCreateAPIView_filter_queryset :: "int \<Rightarrow> order_term list \<Rightarrow> db \<Rightarrow> event list" where
  "EventListCreateAPIView_filter_queryset loaded params d =
     order_by EventListCreateAPIView_ordering_fields
       (get_ordering EventListCreateAPIView_ordering_fields EventListCreateAPIView_ordering params)
       (EventListCreateAPIView_queryset loaded d)"

definition EventListCreateAPIView_list :: "serializers \<Rightarrow> int \<Rightarrow> order_term list \<Rightarrow> db \<Rightarrow> response" where
  "EventListCreateAPIView_list S loaded params d =
     \<lparr>response_status = HTTP_200_OK,
      response_data = Array (map (EventListSerializer S) (EventListCreateAPIView_filter_queryset loaded params d))\<rparr>"

section \<open>One event: retrieve, update, delete\<close>

definition EventRetrieveUpdateDestroyAPIView_queryset :: "db \<Rightarrow> event list" where
  "EventRetrieveUpdateDestroyAPIView_queryset d = Event_objects d"

text \<open>
  Modelled from the spec: \<^verbatim>\<open>custom_permissions.IsOwnerOrReadOnly\<close> (\<^verbatim>\<open>permissions.py\<close> is
  missing), "allow unsafe methods only if entity.hosted_by == requester", every safe method
  allowed. It is an object permission: as a view permission it allows every request.
\<close>

definition IsOwnerOrReadOnly :: "request \<Rightarrow> event \<Rightarrow> bool" where
  "IsOwnerOrReadOnly r obj =
     (request_method r \<in> set SAFE_METHODS \<or> Some (hosted_by obj) = user r)"

text \<open>
  The overridden \<^verbatim>\<open>retrieve\<close>. \<open>now\<close> is the clock reading of \<^verbatim>\<open>timezone.now()\<close> in the
  handler's body. \<^verbatim>\<open>kwargs.get("slug")\<close> is \<open>kwargs ''slug''\<close>; a lookup for no slug matches
  no row. Whatever the lookup raises, the handler raises \<open>NotFound\<close>.
\<close>

definition EventRetrieveUpdateDestroyAPIView_retrieve ::
  "serializers \<Rightarrow> int \<Rightarrow> request \<Rightarrow> kwargs \<Rightarrow> db \<Rightarrow> exc + response" where
  "EventRetrieveUpdateDestroyAPIView_retrieve S now request kw d =
     (case qs_get (EventRetrieveUpdateDestroyAPIView_queryset d) (\<lambda>e. Some (slug e) = kw ''slug'') of
        Inl e \<Rightarrow> Inl NotFound
      | Inr event \<Rightarrow>
          (let data0 = EventRetrieveSerializer S event;
               data1 =
                 (if is_authenticated (user request)
                      \<and> filter (\<lambda>a. Some (attendee_user a) = user request) (attendees event d) \<noteq> []
                  then data0(''has_sign_up'' \<mapsto> JBool True)
                  else data0(''has_sign_up'' \<mapsto> JBool False));
               data2 = data1(''event_is_open'' \<mapsto> JBool (event_date event > now),
                             ''is_authenticated'' \<mapsto> JBool (is_authenticated (user request)))
           in Inr \<lparr>response_status = HTTP_200_OK, response_data = Object data2\<rparr>))"

text \<open>
  \<^verbatim>\<open>GenericAPIView.get_object\<close>: the lookup keyword must be among the URL's keyword arguments,
  the row is fetched with \<open>get_object_or_404\<close>, then the object permissions are checked
  (the framework's \<open>IsAuthenticatedOrReadOnly\<close> allows every object).
\<close>

definition EventRetrieveUpdateDestroyAPIView_get_object :: "request \<Rightarrow> kwargs \<Rightarrow> db \<Rightarrow> exc + event" where
  "EventRetrieveUpdateDestroyAPIView_get_object request kw d =
     (case kw ''slug'' of
        None \<Rightarrow> Inl AssertionError
      | Some s \<Rightarrow>
          (case get_object_or_404 (EventRetrieveUpdateDestroyAPIView_queryset d) (\<lambda>e. slug e = s) of
             Inl e \<Rightarrow> Inl e
           | Inr obj \<Rightarrow>
               if IsOwnerOrReadOnly request obj then Inr obj
               else Inl (permission_denied request)))"

text \<open>
  \<^verbatim>\<open>UpdateModelMixin.update\<close>: fetch the row, validate the data, save, answer 200 with the
  saved row. Saving writes the row with the instance's primary key.
\<close>

definition EventRetrieveUpdateDestroyAPIView_update ::
  "serializers \<Rightarrow> bool \<Rightarrow> request \<Rightarrow> kwargs \<Rightarrow> db \<Rightarrow> (exc + response) \<times> db" where
  "EventRetrieveUpdateDestroyAPIView_update S partial request kw d =
     (case EventRetrieveUpdateDestroyAPIView_get_object request kw d of
        Inl e \<Rightarrow> (Inl e, d)
      | Inr instance \<Rightarrow>
          (case EventCreateUpdateSerializer_save S (data request) partial instance of
             None \<Rightarrow> (Inl ValidationError, d)
           | Some changed \<Rightarrow>
               (let saved = changed\<lparr>pk := pk instance\<rparr>
                in (Inr \<lparr>response_status = HTTP_200_OK,
                         response_data = Object (EventCreateUpdateSerializer S saved)\<rparr>,
                    d\<lparr>Event_objects :=
                        map (\<lambda>x. if pk x = pk instance then saved else x) (Event_objects d)\<rparr>))))"

text \<open>
  Deleting an event row also acts on the rows of the other tables that point to it, as the
  \<^verbatim>\<open>on_delete\<close> rule of each foreign key says. The rules are declared in \<^verbatim>\<open>models.py\<close>, which
  is not among the sources, so they are a parameter: for the foreign key \<^verbatim>\<open>events\<close> of Session
  and of Attendee, the function from the deleted event and the table to the table afterwards.
  The specification lets the owner's delete succeed, so a rule that refuses the deletion is
  not among them.
\<close>

record on_delete =
  Session_events_on_delete :: "event \<Rightarrow> session list \<Rightarrow> session list"
  Attendee_events_on_delete :: "event \<Rightarrow> attendee list \<Rightarrow> attendee list"

text \<open>
  \<^verbatim>\<open>instance.delete()\<close> on an event: its row goes, and the rows that point to it are treated as
  the rules say.
\<close>

definition Event_delete :: "on_delete \<Rightarrow> event \<Rightarrow> db \<Rightarrow> db" where
  "Event_delete D instance d =
     \<lparr>Event_objects = filter (\<lambda>x. pk x \<noteq> pk instance) (Event_objects d),
      Session_objects = Session_events_on_delete D instance (Session_objects d),
      Attendee_objects = Attendee_events_on_delete D instance (Attendee_objects d)\<rparr>"

text \<open>\<^verbatim>\<open>DestroyModelMixin.destroy\<close>: fetch the row, delete it, answer 204.\<close>

definition EventRetrieveUpdateDestroyAPIView_destroy ::
  "on_delete \<Rightarrow> request \<Rightarrow> kwargs \<Rightarrow> db \<Rightarrow> (exc + response) \<times> db" where
  "EventRetrieveUpdateDestroyAPIView_destroy D request kw d =
     (case EventRetrieveUpdateDestroyAPIView_get_object request kw d of
        Inl e \<Rightarrow> (Inl e, d)
      | Inr instance \<Rightarrow>
          (Inr \<lparr>response_status = HTTP_204_NO_CONTENT, response_data = NoBody\<rparr>,
           Event_delete D instance d))"

text \<open>
  \<^verbatim>\<open>APIView.dispatch\<close> for this view: the view permissions first, then the handler of the
  request's method (the view has none for POST).
\<close>

definition EventRetrieveUpdateDestroyAPIView_dispatch ::
  "serializers \<Rightarrow> on_delete \<Rightarrow> int \<Rightarrow> request \<Rightarrow> kwargs \<Rightarrow> db \<Rightarrow> (exc + response) \<times> db" where
  "EventRetrieveUpdateDestroyAPIView_dispatch S D now request kw d =
     (if \<not> IsAuthenticatedOrReadOnly request then (Inl (permission_denied request), d)
      else
        (case request_method request of
           GET \<Rightarrow> (EventRetrieveUpdateDestroyAPIView_retrieve S now request kw d, d)
         | POST \<Rightarrow> (Inl MethodNotAllowed, d)
         | PUT \<Rightarrow> EventRetrieveUpdateDestroyAPIView_update S False request kw d
         | PATCH \<Rightarrow> EventRetrieveUpdateDestroyAPIView_update S True request kw d
         | DELETE \<Rightarrow> EventRetrieveUpdateDestroyAPIView_destroy D request kw d))"

section \<open>Sessions of an event\<close>

text \<open>
  The lookup \<^verbatim>\<open>events__slug=v\<close> on a session: the join with the event table, true when the
  parent event's slug is \<open>v\<close>. The views pass \<^verbatim>\<open>self.kwargs.get("event_slug")\<close>.
\<close>

definition events__slug :: "db \<Rightarrow> session \<Rightarrow> string option \<Rightarrow> bool" where
  "events__slug d s v = list_ex (\<lambda>e. pk e = session_events s \<and> Some (slug e) = v) (Event_objects d)"

text \<open>The reverse manager \<^verbatim>\<open>event.sessions\<close>: the sessions whose parent event is this one.\<close>

definition sessions :: "event \<Rightarrow> db \<Rightarrow> session list" where
  "sessions e d = filter (\<lambda>s. session_events s = pk e) (Session_objects d)"

text \<open>The six \<^verbatim>\<open>get_queryset\<close> methods, each as it is written.\<close>

definition ProposerListCreateAPIView_get_queryset :: "kwargs \<Rightarrow> db \<Rightarrow> session list" where
  "ProposerListCreateAPIView_get_queryset kw d =
     filter (\<lambda>s. events__slug d s (kw ''event_slug''))
       (filter (\<lambda>s. status_value (status s) = ''Draft'') (Session_objects d))"

definition ProposerRetrieveUpdateDestroyAPIView_get_queryset :: "kwargs \<Rightarrow> db \<Rightarrow> session list" where
  "ProposerRetrieveUpdateDestroyAPIView_get_queryset kw d =
     filter (\<lambda>s. events__slug d s (kw ''event_slug''))
       (filter (\<lambda>s. status_value (status s) = ''Draft'') (Session_objects d))"

definition SessionListAPIView_get_queryset :: "kwargs \<Rightarrow> db \<Rightarrow> session list" where
  "SessionListAPIView_get_queryset kw d =
     filter (\<lambda>s. events__slug d s (kw ''event_slug''))
       (filter (\<lambda>s. status_value (status s) = ''Accepted'') (Session_objects d))"

definition SessionRetrieveAPIView_get_queryset :: "kwargs \<Rightarrow> db \<Rightarrow> session list" where
  "SessionRetrieveAPIView_get_queryset kw d =
     filter (\<lambda>s. events__slug d s (kw ''event_slug''))
       (filter (\<lambda>s. status_value (status s) = ''Accepted'') (Session_objects d))"

definition DeniedSessionListAPIView_get_queryset :: "kwargs \<Rightarrow> db \<Rightarrow> session list" where
  "DeniedSessionListAPIView_get_queryset kw d =
     filter (\<lambda>s. events__slug d s (kw ''event_slug''))
       (filter (\<lambda>s. status_value (status s) = ''Denied'') (Session_objects d))"

definition DeniedSessionRetrieveAPIView_get_queryset :: "kwargs \<Rightarrow> db \<Rightarrow> session list" where
  "DeniedSessionRetrieveAPIView_get_queryset kw d =
     filter (\<lambda>s. events__slug d s (kw ''event_slug''))
       (filter (\<lambda>s. status_value (status s) = ''Denied'') (Session_objects d))"

subsection \<open>Proposing a session\<close>

text \<open>The primary key that the database gives a new session row.\<close>

definition fresh_session_pk :: "db \<Rightarrow> nat" where
  "fresh_session_pk d = Suc (fold max (map session_pk (Session_objects d)) 0)"

text \<open>
  \<^verbatim>\<open>perform_create\<close>: \<open>u\<close> is \<^verbatim>\<open>self.request.user\<close>, \<open>validated\<close> the row that the serializer
  built from the validated data. The keyword arguments of \<^verbatim>\<open>save\<close> replace what the data said
  for the same fields. The result is the new row and the database with it, or the exception.
\<close>

definition ProposerListCreateAPIView_perform_create ::
  "user \<Rightarrow> kwargs \<Rightarrow> session \<Rightarrow> db \<Rightarrow> exc + session \<times> db" where
  "ProposerListCreateAPIView_perform_create u kw validated d =
     (case get_object_or_404 (Event_objects d) (\<lambda>e. Some (slug e) = kw ''event_slug'') of
        Inl e \<Rightarrow> Inl e
      | Inr event \<Rightarrow>
          (let new = validated\<lparr>session_pk := fresh_session_pk d,
                               proposed_by := u, session_events := pk event\<rparr>
           in Inr (new, d\<lparr>Session_objects := Session_objects d @ [new]\<rparr>)))"

text \<open>
  \<^verbatim>\<open>CreateModelMixin.create\<close> behind the view permission \<open>IsAuthenticatedOrReadOnly\<close>, which
  lets a POST through for an authenticated user only: validate the data, call
  \<^verbatim>\<open>perform_create\<close>, answer 201 with the new row.
\<close>

definition ProposerListCreateAPIView_post ::
  "serializers \<Rightarrow> request \<Rightarrow> kwargs \<Rightarrow> db \<Rightarrow> (exc + response) \<times> db" where
  "ProposerListCreateAPIView_post S request kw d =
     (case user request of
        None \<Rightarrow> (Inl (permission_denied request), d)
      | Some u \<Rightarrow>
          (case SessionRetrieveCreateUpdateSerializer_create S (data request) of
             None \<Rightarrow> (Inl ValidationError, d)
           | Some validated \<Rightarrow>
               (case ProposerListCreateAPIView_perform_create u kw validated d of
                  Inl e \<Rightarrow> (Inl e, d)
                | Inr (new, d') \<Rightarrow>
                    (Inr \<lparr>response_status = HTTP_201_CREATED,
                          response_data = Object (SessionRetrieveCreateUpdateSerializer S new)\<rparr>,
                     d'))))"

subsection \<open>One session, by status\<close>

text \<open>
  Modelled from the spec: \<^verbatim>\<open>custom_permissions.IsProposerOrReadOnly\<close> (\<^verbatim>\<open>permissions.py\<close> is
  missing), "allow unsafe methods only if entity.proposed_by == requester".
\<close>

definition IsProposerOrReadOnly :: "request \<Rightarrow> session \<Rightarrow> bool" where
  "IsProposerOrReadOnly r obj =
     (request_method r \<in> set SAFE_METHODS \<or> Some (proposed_by obj) = user r)"

text \<open>\<^verbatim>\<open>get_object\<close> of the draft view: the lookup in its query set, then the object permissions.\<close>

definition ProposerRetrieveUpdateDestroyAPIView_get_object :: "request \<Rightarrow> kwargs \<Rightarrow> db \<Rightarrow> exc + session" where
  "ProposerRetrieveUpdateDestroyAPIView_get_object request kw d =
     (case kw ''slug'' of
        None \<Rightarrow> Inl AssertionError
      | Some sl \<Rightarrow>
          (case get_object_or_404 (ProposerRetrieveUpdateDestroyAPIView_get_queryset kw d)
                  (\<lambda>s. session_slug s = sl) of
             Inl e \<Rightarrow> Inl e
           | Inr obj \<Rightarrow>
               if IsProposerOrReadOnly request obj then Inr obj
               else Inl (permission_denied request)))"

definition ProposerRetrieveUpdateDestroyAPIView_retrieve ::
  "serializers \<Rightarrow> request \<Rightarrow> kwargs \<Rightarrow> db \<Rightarrow> exc + response" where
  "ProposerRetrieveUpdateDestroyAPIView_retrieve S request kw d =
     (case ProposerRetrieveUpdateDestroyAPIView_get_object request kw d of
        Inl e \<Rightarrow> Inl e
      | Inr instance \<Rightarrow>
          Inr \<lparr>response_status = HTTP_200_OK,
               response_data = Object (SessionRetrieveCreateUpdateSerializer S instance)\<rparr>)"

definition ProposerRetrieveUpdateDestroyAPIView_update ::
  "serializers \<Rightarrow> bool \<Rightarrow> request \<Rightarrow> kwargs \<Rightarrow> db \<Rightarrow> (exc + response) \<times> db" where
  "ProposerRetrieveUpdateDestroyAPIView_update S partial request kw d =
     (case ProposerRetrieveUpdateDestroyAPIView_get_object request kw d of
        Inl e \<Rightarrow> (Inl e, d)
      | Inr instance \<Rightarrow>
          (case SessionRetrieveCreateUpdateSerializer_save S (data request) partial instance of
             None \<Rightarrow> (Inl ValidationError, d)
           | Some changed \<Rightarrow>
               (let saved = changed\<lparr>session_pk := session_pk instance\<rparr>
                in (Inr \<lparr>response_status = HTTP_200_OK,
                         response_data = Object (SessionRetrieveCreateUpdateSerializer S saved)\<rparr>,
                    d\<lparr>Session_objects :=
                        map (\<lambda>x. if session_pk x = session_pk instance then saved else x)
                          (Session_objects d)\<rparr>))))"

definition ProposerRetrieveUpdateDestroyAPIView_destroy ::
  "request \<Rightarrow> kwargs \<Rightarrow> db \<Rightarrow> (exc + response) \<times> db" where
  "ProposerRetrieveUpdateDestroyAPIView_destroy request kw d =
     (case ProposerRetrieveUpdateDestroyAPIView_get_object request kw d of
        Inl e \<Rightarrow> (Inl e, d)
      | Inr instance \<Rightarrow>
          (Inr \<lparr>response_status = HTTP_204_NO_CONTENT, response_data = NoBody\<rparr>,
           d\<lparr>Session_objects :=
               filter (\<lambda>x. session_pk x \<noteq> session_pk instance) (Session_objects d)\<rparr>))"

definition ProposerRetrieveUpdateDestroyAPIView_dispatch ::
  "serializers \<Rightarrow> request \<Rightarrow> kwargs \<Rightarrow> db \<Rightarrow> (exc + response) \<times> db" where
  "ProposerRetrieveUpdateDestroyAPIView_dispatch S request kw d =
     (if \<not> IsAuthenticatedOrReadOnly request then (Inl (permission_denied request), d)
      else
        (case request_method request of
           GET \<Rightarrow> (ProposerRetrieveUpdateDestroyAPIView_retrieve S request kw d, d)
         | POST \<Rightarrow> (Inl MethodNotAllowed, d)
         | PUT \<Rightarrow> ProposerRetrieveUpdateDestroyAPIView_update S False request kw d
         | PATCH \<Rightarrow> ProposerRetrieveUpdateDestroyAPIView_update S True request kw d
         | DELETE \<Rightarrow> ProposerRetrieveUpdateDestroyAPIView_destroy request kw d))"

text \<open>
  The accepted and the denied view are read-only (\<^verbatim>\<open>RetrieveAPIView\<close>) and declare no
  permission class of their own: \<^verbatim>\<open>retrieve\<close> is the lookup in the view's query set and the
  serialized row.
\<close>

definition SessionRetrieveAPIView_retrieve :: "serializers \<Rightarrow> kwargs \<Rightarrow> db \<Rightarrow> exc + response" where
  "SessionRetrieveAPIView_retrieve S kw d =
     (case kw ''slug'' of
        None \<Rightarrow> Inl AssertionError
      | Some sl \<Rightarrow>
          (case get_object_or_404 (SessionRetrieveAPIView_get_queryset kw d) (\<lambda>s. session_slug s = sl) of
             Inl e \<Rightarrow> Inl e
           | Inr instance \<Rightarrow>
               Inr \<lparr>response_status = HTTP_200_OK,
                    response_data = Object (SessionRetrieveCreateUpdateSerializer S instance)\<rparr>))"

definition DeniedSessionRetrieveAPIView_retrieve :: "serializers \<Rightarrow> kwargs \<Rightarrow> db \<Rightarrow> exc + response" where
  "DeniedSessionRetrieveAPIView_retrieve S kw d =
     (case kw ''slug'' of
        None \<Rightarrow> Inl AssertionError
      | Some sl \<Rightarrow>
          (case get_object_or_404 (DeniedSessionRetrieveAPIView_get_queryset kw d) (\<lambda>s. session_slug s = sl) of
             Inl e \<Rightarrow> Inl e
           | Inr instance \<Rightarrow>
               Inr \<lparr>response_status = HTTP_200_OK,
                    response_data = Object (SessionRetrieveCreateUpdateSerializer S instance)\<rparr>))"

section \<open>Example data\<close>

text \<open>
  Two events, four sessions and two sign-ups, used to run the views. User 1 hosts the first
  event and also has a sign-up row for it; user 2 hosts the second and has signed up to the
  first.
\<close>

definition pycon :: event where
  "pycon = \<lparr>pk = 1, slug = ''pycon'', title = ''PyCon'', description = ''Python'',
            event_date = 150, hosted_by = 1, total_guest = 80, read_time = 5\<rparr>"

definition djangocon :: event where
  "djangocon = \<lparr>pk = 2, slug = ''djangocon'', title = ''DjangoCon'', description = ''Django'',
                event_date = 300, hosted_by = 2, total_guest = 40, read_time = 3\<rparr>"

definition intro :: session where
  "intro = \<lparr>session_pk = 1, session_slug = ''intro'', session_title = ''Intro'',
            session_description = ''Welcome'', status = Accepted, session_type = ''talk'',
            proposed_by = 3, session_events = 1\<rparr>"

definition typing :: session where
  "typing = \<lparr>session_pk = 2, session_slug = ''typing'', session_title = ''Typing'',
             session_description = ''Hints'', status = Draft, session_type = ''talk'',
             proposed_by = 4, session_events = 1\<rparr>"

definition late :: session where
  "late = \<lparr>session_pk = 3, session_slug = ''late'', session_title = ''Late'',
           session_description = ''Too late'', status = Denied, session_type = ''talk'',
           proposed_by = 4, session_events = 1\<rparr>"

definition orm :: session where
  "orm = \<lparr>session_pk = 4, session_slug = ''orm'', session_title = ''ORM'',
          session_description = ''Queries'', status = Draft, session_type = ''workshop'',
          proposed_by = 3, session_events = 2\<rparr>"

definition example_db :: db where
  "example_db =
     \<lparr>Event_objects = [djangocon, pycon],
      Session_objects = [intro, typing, late, orm],
      Attendee_objects = [\<lparr>attendee_user = 1, attendee_events = 1\<rparr>,
                          \<lparr>attendee_user = 2, attendee_events = 1\<rparr>]\<rparr>"

text \<open>A database in which two events carry the same slug.\<close>

definition clash_db :: db where
  "clash_db =
     \<lparr>Event_objects = [pycon, djangocon\<lparr>slug := ''pycon''\<rparr>],
      Session_objects = [], Attendee_objects = []\<rparr>"

text \<open>
  Serializers for the examples. The input serializers want \<open>title\<close> to be a string: an update
  takes it from the data (a partial update keeps the old title when the data has none), and
  anything else is refused.
\<close>

definition event_repr :: "event \<Rightarrow> dict" where
  "event_repr e = [''slug'' \<mapsto> JStr (slug e), ''title'' \<mapsto> JStr (title e)]"

definition session_repr :: "session \<Rightarrow> dict" where
  "session_repr s = [''slug'' \<mapsto> JStr (session_slug s), ''title'' \<mapsto> JStr (session_title s)]"

definition event_save :: "dict \<Rightarrow> bool \<Rightarrow> event \<Rightarrow> event option" where
  "event_save dt partial e =
     (case dt ''title'' of
        None \<Rightarrow> if partial then Some e else None
      | Some (JStr t) \<Rightarrow> Some (e\<lparr>title := t\<rparr>)
      | Some other \<Rightarrow> None)"

definition session_create :: "dict \<Rightarrow> session option" where
  "session_create dt =
     (case dt ''title'' of
        Some (JStr t) \<Rightarrow>
          Some \<lparr>session_pk = 0, session_slug = t, session_title = t, session_description = [],
                status = Draft, session_type = [], proposed_by = 0, session_events = 0\<rparr>
      | other \<Rightarrow> None)"

definition session_save :: "dict \<Rightarrow> bool \<Rightarrow> session \<Rightarrow> session option" where
  "session_save dt partial s =
     (case dt ''title'' of
        None \<Rightarrow> if partial then Some s else None
      | Some (JStr t) \<Rightarrow> Some (s\<lparr>session_title := t\<rparr>)
      | Some other \<Rightarrow> None)"

text \<open>The rule \<^verbatim>\<open>CASCADE\<close> on both foreign keys: the rows of the deleted event go with it.\<close>

definition cascade :: on_delete where
  "cascade =
     \<lparr>Session_events_on_delete = (\<lambda>e. filter (\<lambda>s. session_events s \<noteq> pk e)),
      Attendee_events_on_delete = (\<lambda>e. filter (\<lambda>a. attendee_events a \<noteq> pk e))\<rparr>"

definition example_serializers :: serializers where
  "example_serializers =
     \<lparr>EventRetrieveSerializer = event_repr,
      EventListSerializer = event_repr,
      EventCreateUpdateSerializer = event_repr,
      EventCreateUpdateSerializer_save = event_save,
      SessionRetrieveCreateUpdateSerializer = session_repr,
      SessionRetrieveCreateUpdateSerializer_create = session_create,
      SessionRetrieveCreateUpdateSerializer_save = session_save\<rparr>"

section \<open>Facts about the queries\<close>

lemmas example_defs =
  pycon_def djangocon_def intro_def typing_def late_def orm_def example_db_def clash_db_def

lemmas serializer_defs =
  example_serializers_def event_repr_def session_repr_def event_save_def session_create_def
  session_save_def

lemma qs_get_Inr_iff: "qs_get qs p = Inr x \<longleftrightarrow> filter p qs = [x]"
  by (simp add: qs_get_def split: list.split)

lemma get_object_or_404_Inr_iff: "get_object_or_404 qs p = Inr x \<longleftrightarrow> filter p qs = [x]"
  by (auto simp: get_object_or_404_def qs_get_def split: list.splits)

lemma get_object_or_404_none:
  "filter p qs = [] \<Longrightarrow> get_object_or_404 qs p = Inl Http404"
  by (simp add: get_object_or_404_def qs_get_def)

text \<open>The permission \<open>IsAuthenticated\<close> refuses the anonymous user and nobody else.\<close>

lemma IsAuthenticated_iff: "IsAuthenticated r \<longleftrightarrow> (\<exists>u. user r = Some u)"
  by (simp add: IsAuthenticated_def is_authenticated_def)

lemma qs_first_None: "qs_first xs = None \<longleftrightarrow> xs = []"
  by (cases xs) simp_all

text \<open>
  With unique event slugs, the join \<^verbatim>\<open>events__slug\<close> on the slug of a stored event selects
  the sessions whose foreign key is that event.
\<close>

lemma events__slug_of_event:
  assumes "E \<in> set (Event_objects d)" and "distinct (map slug (Event_objects d))"
  shows "events__slug d s (Some (slug E)) \<longleftrightarrow> session_events s = pk E"
proof
  assume "events__slug d s (Some (slug E))"
  then obtain e where e: "e \<in> set (Event_objects d)" "pk e = session_events s" "slug e = slug E"
    by (auto simp: events__slug_def list_ex_iff)
  from assms(2) have "inj_on slug (set (Event_objects d))"
    by (simp add: distinct_map)
  with e(1,3) assms(1) have "e = E"
    by (auto dest: inj_onD)
  with e(2) show "session_events s = pk E" by simp
next
  assume "session_events s = pk E"
  with assms(1) show "events__slug d s (Some (slug E))"
    by (auto simp: events__slug_def list_ex_iff)
qed

lemma status_value_iff [simp]:
  "status_value st = ''Draft'' \<longleftrightarrow> st = Draft"
  "status_value st = ''Accepted'' \<longleftrightarrow> st = Accepted"
  "status_value st = ''Denied'' \<longleftrightarrow> st = Denied"
  by (cases st; simp)+

section \<open>Properties of the sign-up\<close>

text \<open>
  What the sign-up does for an authenticated user and a POST. When no event has the slug the
  lookup raises \<open>Http404\<close> and nothing is written.
\<close>

lemma sign_up_to_event_no_event:
  assumes "user request = Some u" and "request_method request = POST"
    and "filter (\<lambda>e. slug e = s) (Event_objects d) = []"
  shows "sign_up_to_event request s d = (Inl Http404, d)"
  using assms by (simp add: sign_up_to_event_def get_object_or_404_none)

text \<open>
  A sign-up that the body refuses, for the host or for a user with a sign-up row, is answered
  with status 500, whatever the event and the rows are.
\<close>

lemma sign_up_to_event_refusal_status:
  assumes "user request = Some u" and "request_method request = POST"
    and "get_object_or_404 (Event_objects d) (\<lambda>e. slug e = s) = Inr E"
    and "hosted_by E = u
         \<or> filter (\<lambda>a. attendee_user a = u \<and> attendee_events a = pk E) (Attendee_objects d) \<noteq> []"
  shows "http_status (fst (sign_up_to_event request s d)) = HTTP_500_INTERNAL_SERVER_ERROR"
  using assms
  by (auto simp: sign_up_to_event_def attendees_def qs_first_None filter_empty_conv)

text \<open>
  When the event is found, the user is not its host and has no sign-up row for it, one row
  for the pair is appended and the answer is 201 without a body; the same request on the
  database that results is refused and writes nothing.
\<close>

lemma sign_up_to_event_created:
  assumes "user request = Some u" and "request_method request = POST"
    and "get_object_or_404 (Event_objects d) (\<lambda>e. slug e = s) = Inr E"
    and "hosted_by E \<noteq> u"
    and "filter (\<lambda>a. attendee_user a = u \<and> attendee_events a = pk E) (Attendee_objects d) = []"
  shows "sign_up_to_event request s d =
           (Inr \<lparr>response_status = HTTP_201_CREATED, response_data = NoBody\<rparr>,
            d\<lparr>Attendee_objects := Attendee_objects d @ [\<lparr>attendee_user = u, attendee_events = pk E\<rparr>]\<rparr>)"
    and "\<exists>detail. sign_up_to_event request s (snd (sign_up_to_event request s d)) =
           (Inl (APIException detail HTTP_400_BAD_REQUEST), snd (sign_up_to_event request s d))"
proof -
  show first: "sign_up_to_event request s d =
           (Inr \<lparr>response_status = HTTP_201_CREATED, response_data = NoBody\<rparr>,
            d\<lparr>Attendee_objects := Attendee_objects d @ [\<lparr>attendee_user = u, attendee_events = pk E\<rparr>]\<rparr>)"
    using assms by (auto simp: sign_up_to_event_def attendees_def qs_first_None filter_empty_conv)
  show "\<exists>detail. sign_up_to_event request s (snd (sign_up_to_event request s d)) =
           (Inl (APIException detail HTTP_400_BAD_REQUEST), snd (sign_up_to_event request s d))"
    unfolding first using assms by (simp add: sign_up_to_event_def attendees_def qs_first_None filter_empty_conv)
qed

text \<open>
  Claim C1 (the status of a refused sign-up). The claim gives status 400 to the sign-up of
  the host and to a repeated sign-up. Both raise the base class \<^verbatim>\<open>APIException\<close> with
  \<^verbatim>\<open>code=status.HTTP_400_BAD_REQUEST\<close>; that keyword sets the error code of the detail, and
  the status of the answer is the class's \<^verbatim>\<open>status_code\<close>, 500. In the example database user
  1 hosts the event with slug \<open>pycon\<close> and user 2 has already signed up to it: both requests
  are answered with status 500.
\<close>

theorem sign_up_to_event_refusals_answer_500:
  "http_status (fst (sign_up_to_event \<lparr>request_method = POST, user = Some 1, data = Map.empty\<rparr>
                       ''pycon'' example_db)) = HTTP_500_INTERNAL_SERVER_ERROR
   \<and> http_status (fst (sign_up_to_event \<lparr>request_method = POST, user = Some 2, data = Map.empty\<rparr>
                       ''pycon'' example_db)) = HTTP_500_INTERNAL_SERVER_ERROR"
  by (simp add: sign_up_to_event_def get_object_or_404_def qs_get_def attendees_def example_defs)

text \<open>
  Claim C8 (the owner check comes first). For the host of the resolved event the sign-up
  raises the owner error whatever the sign-up rows are, so also when the host has a row for
  the event; the database stays as it is. The owner message is not the duplicate message.
\<close>

theorem sign_up_to_event_owner_first:
  assumes "user request = Some u" and "request_method request = POST"
    and "get_object_or_404 (Event_objects d) (\<lambda>e. slug e = s) = Inr E"
    and "hosted_by E = u"
  shows "sign_up_to_event request s (d\<lparr>Attendee_objects := rows\<rparr>) =
           (Inl (APIException (''You are the owner of the '' @ title E @ ''.'') HTTP_400_BAD_REQUEST),
            d\<lparr>Attendee_objects := rows\<rparr>)
         \<and> ''You are the owner of the '' @ title E @ ''.'' \<noteq> ''You already attended the '' @ title E @ ''.''"
  using assms by (simp add: sign_up_to_event_def)

text \<open>
  In the example database user 1 hosts \<open>pycon\<close> and has a sign-up row for it: the error is the
  owner error.
\<close>

theorem sign_up_to_event_owner_first_witness:
  "Attendee_objects example_db = [\<lparr>attendee_user = 1, attendee_events = 1\<rparr>, \<lparr>attendee_user = 2, attendee_events = 1\<rparr>]
   \<and> sign_up_to_event \<lparr>request_method = POST, user = Some 1, data = Map.empty\<rparr> ''pycon'' example_db =
        (Inl (APIException ''You are the owner of the PyCon.'' HTTP_400_BAD_REQUEST), example_db)"
proof -
  have found: "get_object_or_404 (Event_objects example_db) (\<lambda>e. slug e = ''pycon'') = Inr pycon"
    by (simp add: get_object_or_404_Inr_iff example_defs)
  have host: "hosted_by pycon = 1"
    by (simp add: pycon_def)
  have same: "example_db\<lparr>Attendee_objects := Attendee_objects example_db\<rparr> = example_db"
    by simp
  from sign_up_to_event_owner_first [of "\<lparr>request_method = POST, user = Some 1, data = Map.empty\<rparr>" 1
      example_db "''pycon''" pycon "Attendee_objects example_db", OF _ _ found host]
  show ?thesis
    by (simp add: same) (simp add: example_defs)
qed

section \<open>Properties of the event list\<close>

text \<open>
  Without query parameters the list holds the stored events whose date is after the clock
  reading taken when the module was loaded, in ascending order of the date.
\<close>

lemma event_list_default:
  "set (EventListCreateAPIView_filter_queryset loaded [] d) = {e \<in> set (Event_objects d). loaded < event_date e}
   \<and> sorted (map event_date (EventListCreateAPIView_filter_queryset loaded [] d))"
  by (simp add: EventListCreateAPIView_filter_queryset_def EventListCreateAPIView_queryset_def
      get_ordering_def remove_invalid_fields_def EventListCreateAPIView_ordering_def
      EventListCreateAPIView_ordering_fields_def)

text \<open>
  Claim C2 (the list holds no event that is not after the time of the request). The filter
  value is the clock reading at load time, not at request time. Module loaded at 100, a
  request handled at 200: the event \<open>pycon\<close>, whose date 150 has passed by then, is listed.
\<close>

theorem event_list_keeps_event_begun_since_load:
  "(100::int) \<le> 200 \<and> event_date pycon \<le> 200
   \<and> EventListCreateAPIView_filter_queryset 100 [] example_db = [pycon, djangocon]"
  by (simp add: EventListCreateAPIView_filter_queryset_def EventListCreateAPIView_queryset_def
      get_ordering_def remove_invalid_fields_def EventListCreateAPIView_ordering_def
      EventListCreateAPIView_ordering_fields_def example_defs)

section \<open>Retrieving an event\<close>

text \<open>
  Claim C3 (\<^verbatim>\<open>event_is_open\<close>). For every requester, a GET for a slug that the lookup resolves
  to the event \<open>E\<close> is answered with 200 and a dictionary whose entry \<^verbatim>\<open>event_is_open\<close> is true
  exactly when the date of \<open>E\<close> is strictly after the clock reading \<open>now\<close> of the handler.
\<close>

theorem retrieve_event_is_open:
  assumes "request_method request = GET"
    and "qs_get (EventRetrieveUpdateDestroyAPIView_queryset d) (\<lambda>e. Some (slug e) = kw ''slug'') = Inr E"
  shows "\<exists>dt. EventRetrieveUpdateDestroyAPIView_dispatch S D now request kw d =
                 (Inr \<lparr>response_status = HTTP_200_OK, response_data = Object dt\<rparr>, d)
              \<and> dt ''event_is_open'' = Some (JBool (now < event_date E))"
  using assms
  by (simp add: EventRetrieveUpdateDestroyAPIView_dispatch_def IsAuthenticatedOrReadOnly_def
      SAFE_METHODS_def EventRetrieveUpdateDestroyAPIView_retrieve_def Let_def)

text \<open>
  The event \<open>pycon\<close> has date 150: open at 100, closed at 150 itself.
\<close>

theorem retrieve_event_is_open_witness:
  "(\<exists>dt. EventRetrieveUpdateDestroyAPIView_dispatch example_serializers cascade 100
            \<lparr>request_method = GET, user = None, data = Map.empty\<rparr> [''slug'' \<mapsto> ''pycon''] example_db =
              (Inr \<lparr>response_status = HTTP_200_OK, response_data = Object dt\<rparr>, example_db)
          \<and> dt ''event_is_open'' = Some (JBool True))
   \<and> (\<exists>dt. EventRetrieveUpdateDestroyAPIView_dispatch example_serializers cascade 150
            \<lparr>request_method = GET, user = None, data = Map.empty\<rparr> [''slug'' \<mapsto> ''pycon''] example_db =
              (Inr \<lparr>response_status = HTTP_200_OK, response_data = Object dt\<rparr>, example_db)
          \<and> dt ''event_is_open'' = Some (JBool False))"
proof -
  let ?kw = "[''slug'' \<mapsto> ''pycon'']"
  let ?request = "\<lparr>request_method = GET, user = None, data = Map.empty\<rparr>"
  have found: "qs_get (EventRetrieveUpdateDestroyAPIView_queryset example_db)
                 (\<lambda>e. Some (slug e) = ?kw ''slug'') = Inr pycon"
    by (simp add: qs_get_Inr_iff EventRetrieveUpdateDestroyAPIView_queryset_def example_defs)
  have get: "request_method ?request = GET" by simp
  have date: "event_date pycon = 150" by (simp add: pycon_def)
  note at_pycon = retrieve_event_is_open [where request = "?request" and kw = "?kw"
      and d = example_db and E = pycon and S = example_serializers and D = cascade, OF get found]
  from at_pycon [of 100] at_pycon [of 150]
  show ?thesis unfolding date by simp
qed

text \<open>
  Claim C4 (\<^verbatim>\<open>has_sign_up\<close>). In the same answer the entry \<^verbatim>\<open>has_sign_up\<close> is true exactly when
  the requester is an authenticated user and a sign-up row for that user and the event
  exists; for the anonymous requester it is false.
\<close>

theorem retrieve_has_sign_up:
  assumes "request_method request = GET"
    and "qs_get (EventRetrieveUpdateDestroyAPIView_queryset d) (\<lambda>e. Some (slug e) = kw ''slug'') = Inr E"
  shows "\<exists>dt. EventRetrieveUpdateDestroyAPIView_dispatch S D now request kw d =
                 (Inr \<lparr>response_status = HTTP_200_OK, response_data = Object dt\<rparr>, d)
              \<and> dt ''has_sign_up'' =
                  Some (JBool (\<exists>u. user request = Some u
                                 \<and> (\<exists>a \<in> set (Attendee_objects d). attendee_user a = u \<and> attendee_events a = pk E)))
              \<and> (user request = None \<longrightarrow> dt ''has_sign_up'' = Some (JBool False))"
  using assms
  by (auto simp: EventRetrieveUpdateDestroyAPIView_dispatch_def IsAuthenticatedOrReadOnly_def
      SAFE_METHODS_def EventRetrieveUpdateDestroyAPIView_retrieve_def Let_def is_authenticated_def
      attendees_def filter_empty_conv)

text \<open>
  User 2 has signed up to \<open>pycon\<close>, user 3 has not, and the third requester is anonymous.
\<close>

theorem retrieve_has_sign_up_witness:
  "(\<exists>dt. EventRetrieveUpdateDestroyAPIView_dispatch example_serializers cascade 100
            \<lparr>request_method = GET, user = Some 2, data = Map.empty\<rparr> [''slug'' \<mapsto> ''pycon''] example_db =
              (Inr \<lparr>response_status = HTTP_200_OK, response_data = Object dt\<rparr>, example_db)
          \<and> dt ''has_sign_up'' = Some (JBool True))
   \<and> (\<exists>dt. EventRetrieveUpdateDestroyAPIView_dispatch example_serializers cascade 100
            \<lparr>request_method = GET, user = Some 3, data = Map.empty\<rparr> [''slug'' \<mapsto> ''pycon''] example_db =
              (Inr \<lparr>response_status = HTTP_200_OK, response_data = Object dt\<rparr>, example_db)
          \<and> dt ''has_sign_up'' = Some (JBool False))
   \<and> (\<exists>dt. EventRetrieveUpdateDestroyAPIView_dispatch example_serializers cascade 100
            \<lparr>request_method = GET, user = None, data = Map.empty\<rparr> [''slug'' \<mapsto> ''pycon''] example_db =
              (Inr \<lparr>response_status = HTTP_200_OK, response_data = Object dt\<rparr>, example_db)
          \<and> dt ''has_sign_up'' = Some (JBool False))"
proof -
  let ?kw = "[''slug'' \<mapsto> ''pycon'']"
  have found: "qs_get (EventRetrieveUpdateDestroyAPIView_queryset example_db)
                 (\<lambda>e. Some (slug e) = ?kw ''slug'') = Inr pycon"
    by (simp add: qs_get_Inr_iff EventRetrieveUpdateDestroyAPIView_queryset_def example_defs)
  have rows: "Attendee_objects example_db =
                [\<lparr>attendee_user = 1, attendee_events = 1\<rparr>, \<lparr>attendee_user = 2, attendee_events = 1\<rparr>]"
    and key: "pk pycon = 1"
    by (simp_all add: example_defs)
  note at_pycon = retrieve_has_sign_up [where kw = "?kw" and d = example_db and E = pycon
      and S = example_serializers and D = cascade and now = 100, OF _ found]
  from at_pycon [of "\<lparr>request_method = GET, user = Some 2, data = Map.empty\<rparr>"]
    at_pycon [of "\<lparr>request_method = GET, user = Some 3, data = Map.empty\<rparr>"]
    at_pycon [of "\<lparr>request_method = GET, user = None, data = Map.empty\<rparr>"]
  show ?thesis unfolding rows key by simp
qed

text \<open>
  Claim C9 (every lookup failure is answered as not found). Whatever exception the lookup of
  the slug raises, \<^verbatim>\<open>retrieve\<close> raises \<open>NotFound\<close>, whose status is 404, and \<^verbatim>\<open>retrieve\<close>
  raises no other exception.
\<close>

theorem retrieve_lookup_failure_not_found:
  "(\<forall>err. qs_get (EventRetrieveUpdateDestroyAPIView_queryset d) (\<lambda>e. Some (slug e) = kw ''slug'') = Inl err
       \<longrightarrow> EventRetrieveUpdateDestroyAPIView_retrieve S now request kw d = Inl NotFound)
   \<and> status_code NotFound = HTTP_404_NOT_FOUND
   \<and> (\<forall>e. EventRetrieveUpdateDestroyAPIView_retrieve S now request kw d = Inl e \<longrightarrow> e = NotFound)"
  by (auto simp: EventRetrieveUpdateDestroyAPIView_retrieve_def Let_def split: sum.splits)

text \<open>
  Two events with the same slug make the lookup raise \<open>MultipleObjectsReturned\<close>, an unknown
  slug makes it raise \<open>DoesNotExist\<close>: the handler raises \<open>NotFound\<close> both times.
\<close>

theorem retrieve_lookup_failure_not_found_witness:
  "qs_get (EventRetrieveUpdateDestroyAPIView_queryset clash_db)
      (\<lambda>e. Some (slug e) = [''slug'' \<mapsto> ''pycon''] ''slug'') = Inl MultipleObjectsReturned
   \<and> EventRetrieveUpdateDestroyAPIView_retrieve example_serializers 100
        \<lparr>request_method = GET, user = None, data = Map.empty\<rparr> [''slug'' \<mapsto> ''pycon''] clash_db = Inl NotFound
   \<and> qs_get (EventRetrieveUpdateDestroyAPIView_queryset example_db)
      (\<lambda>e. Some (slug e) = [''slug'' \<mapsto> ''nope''] ''slug'') = Inl DoesNotExist
   \<and> EventRetrieveUpdateDestroyAPIView_retrieve example_serializers 100
        \<lparr>request_method = GET, user = None, data = Map.empty\<rparr> [''slug'' \<mapsto> ''nope''] example_db = Inl NotFound"
proof -
  have many: "qs_get (EventRetrieveUpdateDestroyAPIView_queryset clash_db)
      (\<lambda>e. Some (slug e) = [''slug'' \<mapsto> ''pycon''] ''slug'') = Inl MultipleObjectsReturned"
    by (simp add: qs_get_def EventRetrieveUpdateDestroyAPIView_queryset_def example_defs)
  have none: "qs_get (EventRetrieveUpdateDestroyAPIView_queryset example_db)
      (\<lambda>e. Some (slug e) = [''slug'' \<mapsto> ''nope''] ''slug'') = Inl DoesNotExist"
    by (simp add: qs_get_def EventRetrieveUpdateDestroyAPIView_queryset_def example_defs)
  from retrieve_lookup_failure_not_found [of clash_db "[''slug'' \<mapsto> ''pycon'']"] many
  have a: "EventRetrieveUpdateDestroyAPIView_retrieve example_serializers 100
        \<lparr>request_method = GET, user = None, data = Map.empty\<rparr> [''slug'' \<mapsto> ''pycon''] clash_db = Inl NotFound"
    by blast
  from retrieve_lookup_failure_not_found [of example_db "[''slug'' \<mapsto> ''nope'']"] none
  have b: "EventRetrieveUpdateDestroyAPIView_retrieve example_serializers 100
        \<lparr>request_method = GET, user = None, data = Map.empty\<rparr> [''slug'' \<mapsto> ''nope''] example_db = Inl NotFound"
    by blast
  from many none a b show ?thesis by blast
qed

section \<open>Changing and deleting an event\<close>

text \<open>
  Claim C6 (who may change or delete an event). For an authenticated requester \<open>R\<close> and a slug
  that resolves to the event \<open>E\<close>: when \<open>R\<close> is not the host, a PATCH or DELETE is refused with
  \<open>PermissionDenied\<close>, status 403, and the database is unchanged. When \<open>R\<close> is the host, no
  permission refuses the request: a DELETE is answered with 204 and deletes \<open>E\<close> (its row, and
  the rows pointing to it as the \<^verbatim>\<open>on_delete\<close> rules say); a PATCH whose data the serializer
  accepts is answered with 200 and writes the changed row.
\<close>

theorem event_unsafe_methods_owner_only:
  assumes "user request = Some R" and "kw ''slug'' = Some s"
    and "get_object_or_404 (EventRetrieveUpdateDestroyAPIView_queryset d) (\<lambda>e. slug e = s) = Inr E"
  shows "(R \<noteq> hosted_by E \<and> request_method request \<in> {PATCH, DELETE} \<longrightarrow>
            EventRetrieveUpdateDestroyAPIView_dispatch S D now request kw d = (Inl PermissionDenied, d))
       \<and> status_code PermissionDenied = HTTP_403_FORBIDDEN
       \<and> (R = hosted_by E \<and> request_method request \<in> {PATCH, DELETE} \<longrightarrow>
            fst (EventRetrieveUpdateDestroyAPIView_dispatch S D now request kw d) \<noteq> Inl PermissionDenied
          \<and> fst (EventRetrieveUpdateDestroyAPIView_dispatch S D now request kw d) \<noteq> Inl NotAuthenticated)
       \<and> (R = hosted_by E \<and> request_method request = DELETE \<longrightarrow>
            EventRetrieveUpdateDestroyAPIView_dispatch S D now request kw d =
              (Inr \<lparr>response_status = HTTP_204_NO_CONTENT, response_data = NoBody\<rparr>,
               Event_delete D E d)
          \<and> Event_objects (Event_delete D E d) = filter (\<lambda>x. pk x \<noteq> pk E) (Event_objects d))
       \<and> (R = hosted_by E \<and> request_method request = PATCH \<longrightarrow>
            (\<forall>changed. EventCreateUpdateSerializer_save S (data request) True E = Some changed \<longrightarrow>
               EventRetrieveUpdateDestroyAPIView_dispatch S D now request kw d =
                 (Inr \<lparr>response_status = HTTP_200_OK,
                       response_data = Object (EventCreateUpdateSerializer S (changed\<lparr>pk := pk E\<rparr>))\<rparr>,
                  d\<lparr>Event_objects :=
                      map (\<lambda>x. if pk x = pk E then changed\<lparr>pk := pk E\<rparr> else x) (Event_objects d)\<rparr>)))"
  using assms
  by (auto simp: EventRetrieveUpdateDestroyAPIView_dispatch_def IsAuthenticatedOrReadOnly_def
      is_authenticated_def EventRetrieveUpdateDestroyAPIView_update_def
      EventRetrieveUpdateDestroyAPIView_destroy_def EventRetrieveUpdateDestroyAPIView_get_object_def
      IsOwnerOrReadOnly_def SAFE_METHODS_def permission_denied_def Event_delete_def Let_def
      split: option.splits)

text \<open>
  User 2 may not rename \<open>pycon\<close>. Its host, user 1, deletes it, and with the rule \<^verbatim>\<open>CASCADE\<close> its
  sessions and sign-ups go with it; or renames it.
\<close>

theorem event_unsafe_methods_owner_only_witness:
  "EventRetrieveUpdateDestroyAPIView_dispatch example_serializers cascade 100
        \<lparr>request_method = PATCH, user = Some 2, data = [''title'' \<mapsto> JStr ''Mine'']\<rparr>
        [''slug'' \<mapsto> ''pycon''] example_db = (Inl PermissionDenied, example_db)
   \<and> EventRetrieveUpdateDestroyAPIView_dispatch example_serializers cascade 100
        \<lparr>request_method = DELETE, user = Some 2, data = Map.empty\<rparr>
        [''slug'' \<mapsto> ''pycon''] example_db = (Inl PermissionDenied, example_db)
   \<and> EventRetrieveUpdateDestroyAPIView_dispatch example_serializers cascade 100
        \<lparr>request_method = DELETE, user = Some 1, data = Map.empty\<rparr>
        [''slug'' \<mapsto> ''pycon''] example_db =
          (Inr \<lparr>response_status = HTTP_204_NO_CONTENT, response_data = NoBody\<rparr>,
           \<lparr>Event_objects = [djangocon], Session_objects = [orm], Attendee_objects = []\<rparr>)
   \<and> EventRetrieveUpdateDestroyAPIView_dispatch example_serializers cascade 100
        \<lparr>request_method = PATCH, user = Some 1, data = [''title'' \<mapsto> JStr ''PyCon 2'']\<rparr>
        [''slug'' \<mapsto> ''pycon''] example_db =
          (Inr \<lparr>response_status = HTTP_200_OK,
                response_data = Object (event_repr (pycon\<lparr>title := ''PyCon 2''\<rparr>))\<rparr>,
           example_db\<lparr>Event_objects := [djangocon, pycon\<lparr>title := ''PyCon 2''\<rparr>]\<rparr>)"
proof -
  let ?kw = "[''slug'' \<mapsto> ''pycon'']"
  have kw: "?kw ''slug'' = Some ''pycon''" by simp
  have found: "get_object_or_404 (EventRetrieveUpdateDestroyAPIView_queryset example_db)
                 (\<lambda>e. slug e = ''pycon'') = Inr pycon"
    by (simp add: get_object_or_404_Inr_iff EventRetrieveUpdateDestroyAPIView_queryset_def example_defs)
  have gone: "Event_delete cascade pycon example_db =
                \<lparr>Event_objects = [djangocon], Session_objects = [orm], Attendee_objects = []\<rparr>"
    by (simp add: Event_delete_def cascade_def example_defs)
  have accepted: "EventCreateUpdateSerializer_save example_serializers [''title'' \<mapsto> JStr ''PyCon 2''] True pycon
                    = Some (pycon\<lparr>title := ''PyCon 2''\<rparr>)"
    by (simp add: example_serializers_def event_save_def)
  note at_pycon = event_unsafe_methods_owner_only [where kw = "?kw" and d = example_db and E = pycon
      and S = example_serializers and D = cascade and now = 100, OF _ kw found]
  have a: "EventRetrieveUpdateDestroyAPIView_dispatch example_serializers cascade 100
        \<lparr>request_method = PATCH, user = Some 2, data = [''title'' \<mapsto> JStr ''Mine'']\<rparr>
        ?kw example_db = (Inl PermissionDenied, example_db)"
    using at_pycon [of "\<lparr>request_method = PATCH, user = Some 2, data = [''title'' \<mapsto> JStr ''Mine'']\<rparr>" 2]
    by (simp add: pycon_def)
  have b: "EventRetrieveUpdateDestroyAPIView_dispatch example_serializers cascade 100
        \<lparr>request_method = DELETE, user = Some 2, data = Map.empty\<rparr>
        ?kw example_db = (Inl PermissionDenied, example_db)"
    using at_pycon [of "\<lparr>request_method = DELETE, user = Some 2, data = Map.empty\<rparr>" 2]
    by (simp add: pycon_def)
  have c: "EventRetrieveUpdateDestroyAPIView_dispatch example_serializers cascade 100
        \<lparr>request_method = DELETE, user = Some 1, data = Map.empty\<rparr>
        ?kw example_db =
          (Inr \<lparr>response_status = HTTP_204_NO_CONTENT, response_data = NoBody\<rparr>,
           \<lparr>Event_objects = [djangocon], Session_objects = [orm], Attendee_objects = []\<rparr>)"
    using at_pycon [of "\<lparr>request_method = DELETE, user = Some 1, data = Map.empty\<rparr>" 1]
    by (simp add: gone) (simp add: pycon_def)
  have e: "EventRetrieveUpdateDestroyAPIView_dispatch example_serializers cascade 100
        \<lparr>request_method = PATCH, user = Some 1, data = [''title'' \<mapsto> JStr ''PyCon 2'']\<rparr>
        ?kw example_db =
          (Inr \<lparr>response_status = HTTP_200_OK,
                response_data = Object (event_repr (pycon\<lparr>title := ''PyCon 2''\<rparr>))\<rparr>,
           example_db\<lparr>Event_objects := [djangocon, pycon\<lparr>title := ''PyCon 2''\<rparr>]\<rparr>)"
    using at_pycon [of "\<lparr>request_method = PATCH, user = Some 1, data = [''title'' \<mapsto> JStr ''PyCon 2'']\<rparr>" 1]
    by (simp add: accepted) (simp add: example_defs example_serializers_def)
  from a b c e show ?thesis by simp
qed

section \<open>Properties of the session views\<close>

text \<open>
  Claim C5 (the three listings partition the sessions of an event). For a stored event \<open>E\<close>,
  event slugs being unique, the draft, accepted and denied query sets for the slug of \<open>E\<close>
  together hold exactly the sessions of \<open>E\<close>, and no two of them share a session.
\<close>

theorem session_listings_partition:
  assumes "E \<in> set (Event_objects d)" and "distinct (map slug (Event_objects d))"
    and "kw ''event_slug'' = Some (slug E)"
  shows "set (ProposerListCreateAPIView_get_queryset kw d)
           \<union> set (SessionListAPIView_get_queryset kw d)
           \<union> set (DeniedSessionListAPIView_get_queryset kw d) = set (sessions E d)
       \<and> set (ProposerListCreateAPIView_get_queryset kw d) \<inter> set (SessionListAPIView_get_queryset kw d) = {}
       \<and> set (ProposerListCreateAPIView_get_queryset kw d) \<inter> set (DeniedSessionListAPIView_get_queryset kw d) = {}
       \<and> set (SessionListAPIView_get_queryset kw d) \<inter> set (DeniedSessionListAPIView_get_queryset kw d) = {}"
proof -
  have join: "events__slug d s (kw ''event_slug'') \<longleftrightarrow> session_events s = pk E" for s
    using events__slug_of_event [OF assms(1,2)] assms(3) by simp
  have all: "status s = Draft \<or> status s = Accepted \<or> status s = Denied" for s :: session
    by (cases "status s") simp_all
  show ?thesis
    unfolding ProposerListCreateAPIView_get_queryset_def SessionListAPIView_get_queryset_def
      DeniedSessionListAPIView_get_queryset_def sessions_def
    using all by (auto simp: join)
qed

text \<open>
  The event \<open>pycon\<close> has one accepted, one draft and one denied session.
\<close>

theorem session_listings_partition_witness:
  "sessions pycon example_db = [intro, typing, late]
   \<and> set (ProposerListCreateAPIView_get_queryset [''event_slug'' \<mapsto> ''pycon''] example_db)
       \<union> set (SessionListAPIView_get_queryset [''event_slug'' \<mapsto> ''pycon''] example_db)
       \<union> set (DeniedSessionListAPIView_get_queryset [''event_slug'' \<mapsto> ''pycon''] example_db)
      = set (sessions pycon example_db)
   \<and> set (ProposerListCreateAPIView_get_queryset [''event_slug'' \<mapsto> ''pycon''] example_db)
       \<inter> set (SessionListAPIView_get_queryset [''event_slug'' \<mapsto> ''pycon''] example_db) = {}
   \<and> set (ProposerListCreateAPIView_get_queryset [''event_slug'' \<mapsto> ''pycon''] example_db)
       \<inter> set (DeniedSessionListAPIView_get_queryset [''event_slug'' \<mapsto> ''pycon''] example_db) = {}
   \<and> set (SessionListAPIView_get_queryset [''event_slug'' \<mapsto> ''pycon''] example_db)
       \<inter> set (DeniedSessionListAPIView_get_queryset [''event_slug'' \<mapsto> ''pycon''] example_db) = {}"
proof -
  have stored: "pycon \<in> set (Event_objects example_db)"
    and unique: "distinct (map slug (Event_objects example_db))"
    and named: "[''event_slug'' \<mapsto> ''pycon''] ''event_slug'' = Some (slug pycon)"
    by (simp_all add: example_defs)
  have rows: "sessions pycon example_db = [intro, typing, late]"
    by (simp add: sessions_def example_defs)
  from session_listings_partition [where kw = "[''event_slug'' \<mapsto> ''pycon'']" and d = example_db
      and E = pycon, OF stored unique named] rows show ?thesis
    by blast
qed

text \<open>
  Claim C7 (creating a draft session under an event slug). When no event has the slug,
  \<^verbatim>\<open>perform_create\<close> raises \<open>Http404\<close>, status 404, and the POST that reached it leaves the
  database as it was. When the lookup resolves to the event \<open>E\<close>, one session row is added,
  proposed by the requesting user and with \<open>E\<close> as its event, whatever the validated data
  said for these two fields.
\<close>

theorem proposer_perform_create_parent_event:
  "(filter (\<lambda>e. Some (slug e) = kw ''event_slug'') (Event_objects d) = [] \<longrightarrow>
      ProposerListCreateAPIView_perform_create u kw validated d = Inl Http404
    \<and> (user request = Some u
         \<and> SessionRetrieveCreateUpdateSerializer_create S (data request) = Some validated \<longrightarrow>
       ProposerListCreateAPIView_post S request kw d = (Inl Http404, d)))
   \<and> status_code Http404 = HTTP_404_NOT_FOUND
   \<and> (\<forall>E. get_object_or_404 (Event_objects d) (\<lambda>e. Some (slug e) = kw ''event_slug'') = Inr E \<longrightarrow>
        (\<exists>new. ProposerListCreateAPIView_perform_create u kw validated d =
                  Inr (new, d\<lparr>Session_objects := Session_objects d @ [new]\<rparr>)
              \<and> proposed_by new = u \<and> session_events new = pk E))"
  by (auto simp: ProposerListCreateAPIView_perform_create_def ProposerListCreateAPIView_post_def
      get_object_or_404_none Let_def)

text \<open>
  User 4 proposes a session whose data names another proposer and another event: under an
  unknown slug nothing is created, under \<open>pycon\<close> the new row belongs to user 4 and event 1.
\<close>

theorem proposer_perform_create_parent_event_witness:
  "ProposerListCreateAPIView_perform_create 4 [''event_slug'' \<mapsto> ''nope''] orm example_db = Inl Http404
   \<and> (\<exists>new. ProposerListCreateAPIView_perform_create 4 [''event_slug'' \<mapsto> ''pycon''] orm example_db =
               Inr (new, example_db\<lparr>Session_objects := Session_objects example_db @ [new]\<rparr>)
            \<and> proposed_by new = 4 \<and> session_events new = 1)"
proof -
  have none: "filter (\<lambda>e. Some (slug e) = [''event_slug'' \<mapsto> ''nope''] ''event_slug'')
                (Event_objects example_db) = []"
    by (simp add: example_defs)
  have found: "get_object_or_404 (Event_objects example_db)
                 (\<lambda>e. Some (slug e) = [''event_slug'' \<mapsto> ''pycon''] ''event_slug'') = Inr pycon"
    by (simp add: get_object_or_404_Inr_iff example_defs)
  have key: "pk pycon = 1" by (simp add: pycon_def)
  from proposer_perform_create_parent_event [of "[''event_slug'' \<mapsto> ''nope'']" example_db 4 orm] none
  have a: "ProposerListCreateAPIView_perform_create 4 [''event_slug'' \<mapsto> ''nope''] orm example_db = Inl Http404"
    by blast
  from proposer_perform_create_parent_event [of "[''event_slug'' \<mapsto> ''pycon'']" example_db 4 orm] found
  have b: "\<exists>new. ProposerListCreateAPIView_perform_create 4 [''event_slug'' \<mapsto> ''pycon''] orm example_db =
               Inr (new, example_db\<lparr>Session_objects := Session_objects example_db @ [new]\<rparr>)
            \<and> proposed_by new = 4 \<and> session_events new = pk pycon"
    by blast
  from a b show ?thesis unfolding key by blast
qed

text \<open>
  Claim C10 (the lookups are scoped by status). Let every session with the slug \<open>sl\<close> under the
  named event have status \<open>st\<close>. On each surface whose status is not \<open>st\<close> the lookup raises
  \<open>Http404\<close>, status 404: on the draft surface every request ends with an exception and an
  unchanged database, and with \<open>Http404\<close> whenever it passes the view permission and has a
  handler (a GET of anyone, a PUT, PATCH or DELETE of an authenticated user); on the accepted
  and the denied surface \<^verbatim>\<open>retrieve\<close> raises \<open>Http404\<close>.
\<close>

theorem session_lookup_scoped_by_status:
  assumes "kw ''slug'' = Some sl"
    and "\<forall>s \<in> set (Session_objects d).
           session_slug s = sl \<and> events__slug d s (kw ''event_slug'') \<longrightarrow> status s = st"
  shows "(st \<noteq> Draft \<longrightarrow>
            (\<exists>e. ProposerRetrieveUpdateDestroyAPIView_dispatch S request kw d = (Inl e, d))
          \<and> (IsAuthenticatedOrReadOnly request \<and> request_method request \<noteq> POST \<longrightarrow>
               ProposerRetrieveUpdateDestroyAPIView_dispatch S request kw d = (Inl Http404, d)))
       \<and> (st \<noteq> Accepted \<longrightarrow> SessionRetrieveAPIView_retrieve S kw d = Inl Http404)
       \<and> (st \<noteq> Denied \<longrightarrow> DeniedSessionRetrieveAPIView_retrieve S kw d = Inl Http404)
       \<and> status_code Http404 = HTTP_404_NOT_FOUND"
proof -
  have draft: "filter (\<lambda>s. session_slug s = sl) (ProposerRetrieveUpdateDestroyAPIView_get_queryset kw d) = []"
    if "st \<noteq> Draft"
    using that assms(2) by (auto simp: ProposerRetrieveUpdateDestroyAPIView_get_queryset_def filter_empty_conv)
  have accepted: "filter (\<lambda>s. session_slug s = sl) (SessionRetrieveAPIView_get_queryset kw d) = []"
    if "st \<noteq> Accepted"
    using that assms(2) by (auto simp: SessionRetrieveAPIView_get_queryset_def filter_empty_conv)
  have denied: "filter (\<lambda>s. session_slug s = sl) (DeniedSessionRetrieveAPIView_get_queryset kw d) = []"
    if "st \<noteq> Denied"
    using that assms(2) by (auto simp: DeniedSessionRetrieveAPIView_get_queryset_def filter_empty_conv)
  have obj: "ProposerRetrieveUpdateDestroyAPIView_get_object request kw d = Inl Http404"
    if "st \<noteq> Draft"
    by (simp add: ProposerRetrieveUpdateDestroyAPIView_get_object_def assms(1)
        get_object_or_404_none [OF draft [OF that]])
  have disp: "ProposerRetrieveUpdateDestroyAPIView_dispatch S request kw d = (Inl Http404, d)"
    if "st \<noteq> Draft" "IsAuthenticatedOrReadOnly request" "request_method request \<noteq> POST"
    using that(2,3) obj [OF that(1)]
    by (cases "request_method request")
      (simp_all add: ProposerRetrieveUpdateDestroyAPIView_dispatch_def
        ProposerRetrieveUpdateDestroyAPIView_retrieve_def ProposerRetrieveUpdateDestroyAPIView_update_def
        ProposerRetrieveUpdateDestroyAPIView_destroy_def)
  have any: "\<exists>e. ProposerRetrieveUpdateDestroyAPIView_dispatch S request kw d = (Inl e, d)"
    if "st \<noteq> Draft"
    using obj [OF that]
    by (cases "request_method request")
      (simp_all add: ProposerRetrieveUpdateDestroyAPIView_dispatch_def
        ProposerRetrieveUpdateDestroyAPIView_retrieve_def ProposerRetrieveUpdateDestroyAPIView_update_def
        ProposerRetrieveUpdateDestroyAPIView_destroy_def)
  have acc: "SessionRetrieveAPIView_retrieve S kw d = Inl Http404" if "st \<noteq> Accepted"
    by (simp add: SessionRetrieveAPIView_retrieve_def assms(1) get_object_or_404_none [OF accepted [OF that]])
  have den: "DeniedSessionRetrieveAPIView_retrieve S kw d = Inl Http404" if "st \<noteq> Denied"
    by (simp add: DeniedSessionRetrieveAPIView_retrieve_def assms(1) get_object_or_404_none [OF denied [OF that]])
  from disp any acc den show ?thesis by simp
qed

text \<open>
  The accepted session \<open>intro\<close> of \<open>pycon\<close>, addressed on the draft and on the denied surface.
\<close>

theorem session_lookup_scoped_by_status_witness:
  "status intro = Accepted
   \<and> ProposerRetrieveUpdateDestroyAPIView_dispatch example_serializers
        \<lparr>request_method = GET, user = None, data = Map.empty\<rparr>
        [''slug'' \<mapsto> ''intro'', ''event_slug'' \<mapsto> ''pycon''] example_db = (Inl Http404, example_db)
   \<and> ProposerRetrieveUpdateDestroyAPIView_dispatch example_serializers
        \<lparr>request_method = PATCH, user = Some 3, data = [''title'' \<mapsto> JStr ''Changed'']\<rparr>
        [''slug'' \<mapsto> ''intro'', ''event_slug'' \<mapsto> ''pycon''] example_db = (Inl Http404, example_db)
   \<and> ProposerRetrieveUpdateDestroyAPIView_dispatch example_serializers
        \<lparr>request_method = DELETE, user = Some 3, data = Map.empty\<rparr>
        [''slug'' \<mapsto> ''intro'', ''event_slug'' \<mapsto> ''pycon''] example_db = (Inl Http404, example_db)
   \<and> DeniedSessionRetrieveAPIView_retrieve example_serializers
        [''slug'' \<mapsto> ''intro'', ''event_slug'' \<mapsto> ''pycon''] example_db = Inl Http404"
proof -
  let ?kw = "[''slug'' \<mapsto> ''intro'', ''event_slug'' \<mapsto> ''pycon'']"
  have named: "?kw ''slug'' = Some ''intro''" by simp
  have only: "\<forall>s \<in> set (Session_objects example_db).
                session_slug s = ''intro'' \<and> events__slug example_db s (?kw ''event_slug'')
                \<longrightarrow> status s = Accepted"
    by (simp add: example_defs)
  have st: "status intro = Accepted" by (simp add: intro_def)
  note scoped = session_lookup_scoped_by_status [where kw = "?kw" and d = example_db
      and sl = "''intro''" and st = Accepted and S = example_serializers, OF named only]
  have a: "ProposerRetrieveUpdateDestroyAPIView_dispatch example_serializers
        \<lparr>request_method = GET, user = None, data = Map.empty\<rparr> ?kw example_db = (Inl Http404, example_db)"
    using scoped [of "\<lparr>request_method = GET, user = None, data = Map.empty\<rparr>"]
    by (simp add: IsAuthenticatedOrReadOnly_def SAFE_METHODS_def)
  have b: "ProposerRetrieveUpdateDestroyAPIView_dispatch example_serializers
        \<lparr>request_method = PATCH, user = Some 3, data = [''title'' \<mapsto> JStr ''Changed'']\<rparr>
        ?kw example_db = (Inl Http404, example_db)"
    using scoped [of "\<lparr>request_method = PATCH, user = Some 3, data = [''title'' \<mapsto> JStr ''Changed'']\<rparr>"]
    by (simp add: IsAuthenticatedOrReadOnly_def is_authenticated_def)
  have c: "ProposerRetrieveUpdateDestroyAPIView_dispatch example_serializers
        \<lparr>request_method = DELETE, user = Some 3, data = Map.empty\<rparr> ?kw example_db = (Inl Http404, example_db)"
    using scoped [of "\<lparr>request_method = DELETE, user = Some 3, data = Map.empty\<rparr>"]
    by (simp add: IsAuthenticatedOrReadOnly_def is_authenticated_def)
  have e: "DeniedSessionRetrieveAPIView_retrieve example_serializers ?kw example_db = Inl Http404"
    using scoped [of "\<lparr>request_method = GET, user = None, data = Map.empty\<rparr>"] by simp
  from st a b c e show ?thesis by blast
qed

end
